theory Spec2Isabelle
  imports Complex_Main
begin

section \<open>The SimpleQA benchmark adapter (\<^verbatim>\<open>benchflow_interface.py\<close>)\<close>

text \<open>
  The adapter is one Python class, \<^verbatim>\<open>SimpleQABench\<close>, with six methods. Five of them return
  constants; \<^verbatim>\<open>get_result\<close> reads the results directory, one result file and an optional log
  file, and projects the decoded JSON onto a \<^verbatim>\<open>BenchmarkResult\<close>.

  The embedding is shallow. Python values are a datatype, dictionaries are association
  lists in the order the source writes them, a raised exception is the left summand of
  \<open>exn + 'a\<close>, and everything \<^verbatim>\<open>get_result\<close> reads from outside (the file system, the
  \<^verbatim>\<open>json\<close> decoder, the string conversion of an f-string) is an explicit argument.
\<close>

subsection \<open>Python values and exceptions\<close>

text \<open>
  The values \<^verbatim>\<open>json.load\<close> can produce: \<^verbatim>\<open>None\<close>, \<^verbatim>\<open>bool\<close>, \<^verbatim>\<open>int\<close> (unbounded), \<^verbatim>\<open>float\<close>,
  \<^verbatim>\<open>str\<close>, \<^verbatim>\<open>list\<close> and \<^verbatim>\<open>dict\<close> with string keys. The adapter never computes with a float, it
  only copies them and writes the literal \<^verbatim>\<open>0.0\<close>; floats are therefore an opaque carrier
  \<open>'f\<close> whose \<open>0\<close> stands for \<^verbatim>\<open>0.0\<close>.
\<close>

datatype 'f pyval =
    PyNone
  | PyBool bool
  | PyInt int
  | PyFloat 'f
  | PyStr string
  | PyList "'f pyval list"
  | PyDict "(string \<times> 'f pyval) list"

text \<open>
  Exceptions, all of them subclasses of \<^verbatim>\<open>Exception\<close>. \<open>KeyError\<close> carries the missing key,
  the others carry their message. \<^verbatim>\<open>json.JSONDecodeError\<close> and \<^verbatim>\<open>UnicodeDecodeError\<close> are
  \<^verbatim>\<open>ValueError\<close>s; \<^verbatim>\<open>FileNotFoundError\<close>, \<^verbatim>\<open>PermissionError\<close>, \<^verbatim>\<open>IsADirectoryError\<close> and
  \<^verbatim>\<open>NotADirectoryError\<close> are \<^verbatim>\<open>OSError\<close>s.
\<close>

datatype exn =
    KeyError string
  | TypeError string
  | ValueError string
  | OSError string

definition quoted :: "string \<Rightarrow> string" where
  \<comment> \<open>\<^verbatim>\<open>repr\<close> of a string without quotes, backslashes or control characters\<close>
  "quoted s = CHR 0x27 # s @ [CHR 0x27]"

fun str_exn :: "exn \<Rightarrow> string" where
  \<comment> \<open>\<^verbatim>\<open>str(e)\<close>: a \<^verbatim>\<open>KeyError\<close> prints the \<^verbatim>\<open>repr\<close> of its key, the others their message\<close>
  "str_exn (KeyError k) = quoted k"
| "str_exn (TypeError m) = m"
| "str_exn (ValueError m) = m"
| "str_exn (OSError m) = m"

definition bind :: "exn + 'a \<Rightarrow> ('a \<Rightarrow> exn + 'b) \<Rightarrow> exn + 'b" where
  \<comment> \<open>sequencing: an exception raised by the first statement skips the rest\<close>
  "bind r f = (case r of Inl e \<Rightarrow> Inl e | Inr x \<Rightarrow> f x)"

subsection \<open>The harness types\<close>

text \<open>
  \<^verbatim>\<open>BenchArgs\<close> and \<^verbatim>\<open>BenchmarkResult\<close> are classes of the \<^verbatim>\<open>benchflow\<close> package, and the
  attributes \<^verbatim>\<open>results_dir\<close> and \<^verbatim>\<open>log_files_dir\<close> are set by its \<^verbatim>\<open>BaseBench\<close>. The
  package is not part of the repository. Both classes validate what their constructor
  is given, so the two constructors are functions of the model, not record brackets.
\<close>

datatype argval =
  \<comment> \<open>the two kinds of value in the dictionary that \<^verbatim>\<open>get_args\<close> builds\<close>
    ArgList "string list"
  | ArgDict "(string \<times> string) list"

record BenchArgs =
  \<comment> \<open>Modelled from the spec: the Configuration Descriptor with its two fields,
      \<^verbatim>\<open>required\<close> and \<^verbatim>\<open>optional\<close>. Further fields of the library class are left out.\<close>
  required :: argval
  optional :: argval

definition new_BenchArgs :: "(string \<times> argval) list \<Rightarrow> BenchArgs" where
  \<comment> \<open>Modelled from the spec: the constructor \<^verbatim>\<open>BenchArgs(arguments)\<close> takes one dictionary
      and fills the two fields of the descriptor from the entries of the same names,
      \<^verbatim>\<open>arguments.get('required', [])\<close> and \<^verbatim>\<open>arguments.get('optional', {})\<close>; an entry
      under any other key is not read.\<close>
  "new_BenchArgs arguments =
     \<lparr> required = (case map_of arguments ''required'' of None \<Rightarrow> ArgList [] | Some v \<Rightarrow> v),
       optional = (case map_of arguments ''optional'' of None \<Rightarrow> ArgDict [] | Some v \<Rightarrow> v) \<rparr>"

record 'f BenchmarkResult =
  \<comment> \<open>Modelled from the spec: the Result Record, with exactly the five keyword arguments
      the source passes to the constructor.\<close>
  task_id :: string
  is_resolved :: bool
  log :: "(string \<times> string) list"
  metrics :: "(string \<times> 'f pyval) list"
  other :: "(string \<times> 'f pyval) list"

record TaskList =
  \<comment> \<open>the two-key dictionary returned by \<^verbatim>\<open>get_all_tasks\<close>; \<open>None\<close> is Python's \<^verbatim>\<open>None\<close>\<close>
  task_ids :: "string list"
  error_message :: "string option"

record SimpleQABench =
  \<comment> \<open>the two attributes of \<^verbatim>\<open>self\<close> that the adapter reads\<close>
  results_dir :: string
  log_files_dir :: string

subsection \<open>The constant methods\<close>

definition get_args :: "string \<Rightarrow> BenchArgs" where
  \<comment> \<open>lines 22 to 33: one positional dictionary, with the keys \<^verbatim>\<open>required_args\<close> and
      \<^verbatim>\<open>optional_args\<close>, is passed to the constructor\<close>
  "get_args tid =
     new_BenchArgs
       [ (''required_args'', ArgList [''OPENAI_API_KEY'']),
         (''optional_args'', ArgDict
           [ (''MODEL_NAME'', ''gpt-4o-mini''),
             (''TEMPERATURE'', ''0.5''),
             (''MAX_TOKENS'', ''2048''),
             (''LIMIT'', ''0''),
             (''BATCH_SIZE'', ''10''),
             (''GRADER_MODEL'', ''gpt-4o''),
             (''GRADER_TEMPERATURE'', ''0.5'') ]) ]"

definition get_image_name :: string where
  "get_image_name = ''131268/benchflow-simpleqa:latest''"

definition get_results_dir_in_container :: string where
  "get_results_dir_in_container = ''/app/results''"

definition get_log_files_dir_in_container :: string where
  "get_log_files_dir_in_container = ''/app/logs''"

definition get_all_tasks :: "string \<Rightarrow> TaskList" where
  "get_all_tasks split = \<lparr> task_ids = [''default''], error_message = None \<rparr>"

subsection \<open>What \<^verbatim>\<open>get_result\<close> reads from outside\<close>

text \<open>
  The file system as \<^verbatim>\<open>get_result\<close> observes it during one call: \<^verbatim>\<open>os.listdir\<close>,
  opening a path for reading and reading all of it (\<^verbatim>\<open>open(p, 'r')\<close> followed by
  \<^verbatim>\<open>f.read()\<close>, which is also what \<^verbatim>\<open>json.load(f)\<close> does first), and \<^verbatim>\<open>os.path.exists\<close>.
  The first two can raise; \<^verbatim>\<open>os.path.exists\<close> returns a boolean. The three are independent
  functions, so a name that is listed but cannot be opened, or a path that exists but
  cannot be read (a directory, a file without permission, bytes that do not decode) are
  all file-system states of the model.
\<close>

record fsys =
  listdir :: "string \<Rightarrow> exn + string list"
  read_text :: "string \<Rightarrow> exn + string"
  path_exists :: "string \<Rightarrow> bool"

text \<open>
  The library functions applied to file contents: \<^verbatim>\<open>json.loads\<close> (decoding can raise), the
  conversion \<^verbatim>\<open>format(v, '')\<close> that an f-string applies to an interpolated value (total on
  the values \<^verbatim>\<open>json.loads\<close> returns), and what the validation of \<^verbatim>\<open>BenchmarkResult\<close> does
  with a metrics dictionary that holds a value other than a number: \<open>metrics_error\<close> is
  the \<^verbatim>\<open>ValidationError\<close> it raises, if it raises one, and \<open>coerce_metric\<close> is the value
  it stores for a value that it accepts.
\<close>

record 'f pylib =
  json_loads :: "string \<Rightarrow> exn + 'f pyval"
  format_value :: "'f pyval \<Rightarrow> string"
  metrics_error :: "(string \<times> 'f pyval) list \<Rightarrow> exn option"
  coerce_metric :: "'f pyval \<Rightarrow> 'f pyval"

subsection \<open>Library operations the method uses\<close>

definition endswith :: "string \<Rightarrow> string \<Rightarrow> bool" where
  \<comment> \<open>\<^verbatim>\<open>s.endswith(suffix)\<close>\<close>
  "endswith s suffix =
     (length suffix \<le> length s \<and> drop (length s - length suffix) s = suffix)"

definition path_join :: "string \<Rightarrow> string \<Rightarrow> string" where
  \<comment> \<open>\<^verbatim>\<open>os.path.join(a, b)\<close> of \<^verbatim>\<open>posixpath\<close>: an absolute \<^verbatim>\<open>b\<close> replaces \<^verbatim>\<open>a\<close>, and a
      separator is inserted unless \<^verbatim>\<open>a\<close> is empty or already ends with one\<close>
  "path_join a b =
     (if take 1 b = ''/'' then b
      else if a = [] \<or> endswith a ''/'' then a @ b
      else a @ ''/'' @ b)"

fun getitem :: "'f pyval \<Rightarrow> string \<Rightarrow> exn + 'f pyval" where
  \<comment> \<open>\<^verbatim>\<open>v[k]\<close> for a string key \<^verbatim>\<open>k\<close>; the messages are those of CPython 3.11 and later\<close>
  "getitem (PyDict kvs) k = (case map_of kvs k of Some v \<Rightarrow> Inr v | None \<Rightarrow> Inl (KeyError k))"
| "getitem (PyList xs) k = Inl (TypeError ''list indices must be integers or slices, not str'')"
| "getitem (PyStr s) k = Inl (TypeError (''string indices must be integers, not '' @ quoted ''str''))"
| "getitem PyNone k = Inl (TypeError (quoted ''NoneType'' @ '' object is not subscriptable''))"
| "getitem (PyBool b) k = Inl (TypeError (quoted ''bool'' @ '' object is not subscriptable''))"
| "getitem (PyInt i) k = Inl (TypeError (quoted ''int'' @ '' object is not subscriptable''))"
| "getitem (PyFloat x) k = Inl (TypeError (quoted ''float'' @ '' object is not subscriptable''))"

fun getslice :: "'f pyval \<Rightarrow> nat \<Rightarrow> exn + 'f pyval" where
  \<comment> \<open>\<^verbatim>\<open>v[:n]\<close>: a prefix of a list or of a string; a dictionary cannot be sliced (the
      \<^verbatim>\<open>TypeError\<close> is that of CPython up to 3.11; 3.12 raises a \<^verbatim>\<open>KeyError\<close> instead)\<close>
  "getslice (PyList xs) n = Inr (PyList (take n xs))"
| "getslice (PyStr s) n = Inr (PyStr (take n s))"
| "getslice (PyDict kvs) n = Inl (TypeError (''unhashable type: '' @ quoted ''slice''))"
| "getslice PyNone n = Inl (TypeError (quoted ''NoneType'' @ '' object is not subscriptable''))"
| "getslice (PyBool b) n = Inl (TypeError (quoted ''bool'' @ '' object is not subscriptable''))"
| "getslice (PyInt i) n = Inl (TypeError (quoted ''int'' @ '' object is not subscriptable''))"
| "getslice (PyFloat x) n = Inl (TypeError (quoted ''float'' @ '' object is not subscriptable''))"

subsection \<open>\<^verbatim>\<open>get_result\<close>\<close>

fun is_number :: "'f pyval \<Rightarrow> bool" where
  \<comment> \<open>a JSON number: a Python \<^verbatim>\<open>int\<close> or \<^verbatim>\<open>float\<close>\<close>
  "is_number (PyInt i) = True"
| "is_number (PyFloat x) = True"
| "is_number v = False"

definition numeric :: "(string \<times> 'f pyval) list \<Rightarrow> bool" where
  "numeric kvs = list_all is_number (map snd kvs)"

definition new_BenchmarkResult :: "'f pylib \<Rightarrow> 'f BenchmarkResult \<Rightarrow> exn + 'f BenchmarkResult" where
  \<comment> \<open>Modelled from the spec: the constructor \<^verbatim>\<open>BenchmarkResult(task_id=..., ...)\<close>. The
      metrics of a Result Record map metric names to numeric or count values: numbers
      are stored as they are. A metrics dictionary with any other value (\<^verbatim>\<open>None\<close>, a
      dictionary, a list, a string, a boolean) goes through the validation of the library,
      which raises or stores the converted values under the same keys. The other four
      arguments have the types of their fields wherever the source calls the constructor.\<close>
  "new_BenchmarkResult py raw =
     (if numeric (metrics raw) then Inr raw
      else case metrics_error py (metrics raw) of
             Some e \<Rightarrow> Inl e
           | None \<Rightarrow>
               Inr (raw\<lparr> metrics :=
                      map (\<lambda>(k, v). (k, if is_number v then v else coerce_metric py v))
                        (metrics raw) \<rparr>))"

definition no_results :: "string \<Rightarrow> 'f::zero BenchmarkResult" where
  \<comment> \<open>lines 65 to 71: the arguments of the constructor when no result file is listed\<close>
  "no_results tid =
     \<lparr> task_id = tid, is_resolved = False,
       log = [(''message'', '''')],
       metrics = [(''accuracy'', PyFloat 0)],
       other = [(''error'', PyStr ''No results found'')] \<rparr>"

definition parse_error :: "string \<Rightarrow> exn \<Rightarrow> 'f::zero BenchmarkResult" where
  \<comment> \<open>lines 109 to 115: the arguments of the constructor in the handler
      \<^verbatim>\<open>except Exception as e\<close>\<close>
  "parse_error tid e =
     \<lparr> task_id = tid, is_resolved = False,
       log = [(''message'', '''')],
       metrics = [(''accuracy'', PyFloat 0)],
       other = [(''error'', PyStr (''Error parsing results: '' @ str_exn e))] \<rparr>"

definition build_result ::
  "'f pylib \<Rightarrow> string \<Rightarrow> string \<Rightarrow> 'f pyval \<Rightarrow> exn + 'f BenchmarkResult" where
  \<comment> \<open>lines 88 to 106. The subscripts are evaluated in the order the source writes them,
      and the first one that raises ends the evaluation; \<^verbatim>\<open>metrics['total']\<close> is read a
      second time for the f-string. The constructor is called last, inside the \<^verbatim>\<open>try\<close>.\<close>
  "build_result py tid log_content results =
     bind (getitem results ''metrics'') (\<lambda>m.
     bind (getitem m ''accuracy'') (\<lambda>accuracy.
     bind (getitem m ''correct'') (\<lambda>correct.
     bind (getitem m ''incorrect'') (\<lambda>incorrect.
     bind (getitem m ''not_attempted'') (\<lambda>not_attempted.
     bind (getitem m ''total'') (\<lambda>total.
     bind (getitem m ''correct_given_attempted'') (\<lambda>correct_given_attempted.
     bind (getitem m ''f_score'') (\<lambda>f_score.
     bind (getitem m ''total'') (\<lambda>evaluated.
     bind (getitem results ''results'') (\<lambda>rs.
     bind (getslice rs 10) (\<lambda>detailed.
     new_BenchmarkResult py
         \<lparr> task_id = tid, is_resolved = True,
           log = [(''content'', log_content)],
           metrics =
             [ (''accuracy'', accuracy),
               (''correct'', correct),
               (''incorrect'', incorrect),
               (''not_attempted'', not_attempted),
               (''total'', total),
               (''correct_given_attempted'', correct_given_attempted),
               (''f_score'', f_score) ],
           other =
             [ (''success'', PyStr (''Evaluated '' @ format_value py evaluated @ '' examples'')),
               (''detailed_results'', detailed) ] \<rparr>)))))))))))"

definition log_file_of :: "SimpleQABench \<Rightarrow> string" where
  \<comment> \<open>line 81\<close>
  "log_file_of self = path_join (log_files_dir self) ''simpleqa.log''"

definition read_log :: "fsys \<Rightarrow> SimpleQABench \<Rightarrow> exn + string" where
  \<comment> \<open>lines 81 to 85: the log text, empty when \<^verbatim>\<open>os.path.exists\<close> says the file is not there\<close>
  "read_log fs self =
     (if path_exists fs (log_file_of self) then read_text fs (log_file_of self) else Inr '''')"

definition try_body ::
  "'f pylib \<Rightarrow> fsys \<Rightarrow> SimpleQABench \<Rightarrow> string \<Rightarrow> string \<Rightarrow> exn + 'f BenchmarkResult" where
  \<comment> \<open>lines 77 to 106, the body of the \<^verbatim>\<open>try\<close> statement\<close>
  "try_body py fs self tid result_file =
     bind (read_text fs result_file) (\<lambda>text.
     bind (json_loads py text) (\<lambda>results.
     bind (read_log fs self) (\<lambda>log_content.
     build_result py tid log_content results)))"

definition result_files_of :: "string list \<Rightarrow> string list" where
  \<comment> \<open>the comprehension of line 62, on the names \<^verbatim>\<open>os.listdir\<close> returned\<close>
  "result_files_of names = filter (\<lambda>f. endswith f ''_result.json'') names"

definition get_result ::
  "'f::zero pylib \<Rightarrow> fsys \<Rightarrow> SimpleQABench \<Rightarrow> string \<Rightarrow> exn + 'f BenchmarkResult" where
  \<comment> \<open>lines 62 to 115. \<^verbatim>\<open>os.listdir\<close> is called before the \<^verbatim>\<open>try\<close> statement, so what it
      raises leaves the method; what the body of the \<^verbatim>\<open>try\<close> raises is handled. The two
      constructor calls outside the \<^verbatim>\<open>try\<close> body pass the number \<^verbatim>\<open>0.0\<close> as only metric.\<close>
  "get_result py fs self tid =
     bind (listdir fs (results_dir self)) (\<lambda>names.
       case result_files_of names of
         [] \<Rightarrow> new_BenchmarkResult py (no_results tid)
       | first # _ \<Rightarrow>
           (case try_body py fs self tid (path_join (results_dir self) first) of
              Inr r \<Rightarrow> Inr r
            | Inl e \<Rightarrow> new_BenchmarkResult py (parse_error tid e)))"

subsection \<open>A small file system and decoder for concrete runs\<close>

text \<open>
  Concrete inputs are written as a table from absolute paths to nodes and a table from
  file texts to the values they decode to. A path that is not in the table does not
  exist; a text that is not in the table is taken to be rejected by the decoder at its
  first character. In these runs the validation of \<^verbatim>\<open>BenchmarkResult\<close> rejects every
  metrics dictionary that holds a value other than a number, with a message that stands
  for the one of the library.
\<close>

datatype node = File string | Dir "string list"

definition errno_message :: "string \<Rightarrow> string \<Rightarrow> string" where
  "errno_message what p = what @ '': '' @ quoted p"

definition fs_of :: "(string \<times> node) list \<Rightarrow> fsys" where
  "fs_of tab =
     \<lparr> listdir = (\<lambda>p. case map_of tab p of
           None \<Rightarrow> Inl (OSError (errno_message ''[Errno 2] No such file or directory'' p))
         | Some (File s) \<Rightarrow> Inl (OSError (errno_message ''[Errno 20] Not a directory'' p))
         | Some (Dir names) \<Rightarrow> Inr names),
       read_text = (\<lambda>p. case map_of tab p of
           None \<Rightarrow> Inl (OSError (errno_message ''[Errno 2] No such file or directory'' p))
         | Some (File s) \<Rightarrow> Inr s
         | Some (Dir names) \<Rightarrow> Inl (OSError (errno_message ''[Errno 21] Is a directory'' p))),
       path_exists = (\<lambda>p. map_of tab p \<noteq> None) \<rparr>"

fun decimal :: "nat \<Rightarrow> string" where
  "decimal n =
     (if n < 10 then [char_of (48 + n)] else decimal (n div 10) @ [char_of (48 + n mod 10)])"

declare decimal.simps [simp del]

fun format_plain :: "'f pyval \<Rightarrow> string" where
  \<comment> \<open>\<^verbatim>\<open>format(v, '')\<close> on integers, strings, booleans and \<^verbatim>\<open>None\<close>; floats and containers
      are not interpolated in the concrete runs and get a placeholder\<close>
  "format_plain (PyInt i) = (if i < 0 then ''-'' @ decimal (nat (- i)) else decimal (nat i))"
| "format_plain (PyStr s) = s"
| "format_plain PyNone = ''None''"
| "format_plain (PyBool b) = (if b then ''True'' else ''False'')"
| "format_plain (PyFloat x) = ''<float>''"
| "format_plain (PyList xs) = ''<list>''"
| "format_plain (PyDict kvs) = ''<dict>''"

definition py_of :: "(string \<times> 'f pyval) list \<Rightarrow> 'f pylib" where
  "py_of tab =
     \<lparr> json_loads = (\<lambda>s. case map_of tab s of
           None \<Rightarrow> Inl (ValueError ''Expecting value: line 1 column 1 (char 0)'')
         | Some v \<Rightarrow> Inr v),
       format_value = format_plain,
       metrics_error = (\<lambda>kvs. Some (ValueError ''validation error for BenchmarkResult'')),
       coerce_metric = (\<lambda>v. v) \<rparr>"

definition bench :: SimpleQABench where
  "bench = \<lparr> results_dir = ''/app/results'', log_files_dir = ''/app/logs'' \<rparr>"

text \<open>
  The result file of the worked example: the seven metrics, one more key in the metrics
  object, and twelve per-example results. In the concrete runs the float carrier is
  \<open>real\<close>, and a float of the file is the real number its literal denotes.
\<close>

definition sample_text :: string where
  \<open>sample_text = ''{"metrics": {"accuracy": 0.8, "correct": 8, "incorrect": 1, "not_attempted": 1, "total": 10, "correct_given_attempted": 0.888, "f_score": 0.84, "model": "gpt-4o-mini"}, "results": [1, 2, 3, 4, 5, 6, 7, 8, 9, 10, 11, 12]}''\<close>

definition sample_metrics :: "(string \<times> real pyval) list" where
  "sample_metrics =
     [ (''accuracy'', PyFloat 0.8), (''correct'', PyInt 8), (''incorrect'', PyInt 1),
       (''not_attempted'', PyInt 1), (''total'', PyInt 10),
       (''correct_given_attempted'', PyFloat 0.888), (''f_score'', PyFloat 0.84),
       (''model'', PyStr ''gpt-4o-mini'') ]"

definition sample_results :: "real pyval list" where
  "sample_results = map PyInt [1, 2, 3, 4, 5, 6, 7, 8, 9, 10, 11, 12]"

definition sample_value :: "real pyval" where
  "sample_value =
     PyDict [ (''metrics'', PyDict sample_metrics), (''results'', PyList sample_results) ]"

definition sample_py :: "real pylib" where
  "sample_py = py_of [(sample_text, sample_value), (''{}'', PyDict [])]"

subsection \<open>Vocabulary of the properties\<close>

definition metric_keys :: "string list" where
  \<comment> \<open>the keys of the dictionary display of lines 93 to 101, in its order\<close>
  "metric_keys =
     [''accuracy'', ''correct'', ''incorrect'', ''not_attempted'', ''total'',
      ''correct_given_attempted'', ''f_score'']"

definition has_key :: "'f pyval \<Rightarrow> string \<Rightarrow> bool" where
  \<comment> \<open>the value is a JSON object and has the key\<close>
  "has_key v k = (case v of PyDict kvs \<Rightarrow> k \<in> fst ` set kvs | _ \<Rightarrow> False)"

section \<open>Properties\<close>

subsection \<open>The constant methods\<close>

text \<open>
  Claim C8. The claim holds of what \<^verbatim>\<open>get_args\<close> means to declare, and the code misses
  it: the dictionary of lines 22 to 33 carries the required key and the seven defaults
  under the keys \<^verbatim>\<open>required_args\<close> and \<^verbatim>\<open>optional_args\<close>, while the constructor fills the
  descriptor from the entries \<^verbatim>\<open>required\<close> and \<^verbatim>\<open>optional\<close>. For every task id the
  descriptor returned has no required key and no optional default; in particular
  \<^verbatim>\<open>OPENAI_API_KEY\<close> is not required.
\<close>

theorem get_args_declares_nothing:
  "get_args tid = \<lparr> required = ArgList [], optional = ArgDict [] \<rparr>
   \<and> required (get_args tid) \<noteq> ArgList [''OPENAI_API_KEY'']"
  by (simp add: get_args_def new_BenchArgs_def)

text \<open>
  Claim C9. For every split, \<^verbatim>\<open>get_all_tasks\<close> returns the single task \<^verbatim>\<open>default\<close> and no
  error message.
\<close>

theorem get_all_tasks_default:
  "get_all_tasks split = \<lparr> task_ids = [''default''], error_message = None \<rparr>"
  by (simp add: get_all_tasks_def)

subsection \<open>Auxiliary facts\<close>

lemma bind_Inl [simp]: "bind (Inl e) f = Inl e"
  by (simp add: bind_def)

lemma bind_Inr [simp]: "bind (Inr x) f = f x"
  by (simp add: bind_def)

lemma bind_eq_Inr: "bind r f = Inr y \<longleftrightarrow> (\<exists>x. r = Inr x \<and> f x = Inr y)"
  by (cases r) simp_all

text \<open>\<^verbatim>\<open>endswith\<close> is the suffix relation.\<close>

lemma endswith_iff: "endswith s suffix \<longleftrightarrow> (\<exists>p. s = p @ suffix)"
proof
  assume "endswith s suffix"
  then have "s = take (length s - length suffix) s @ suffix"
    by (metis append_take_drop_id endswith_def)
  then show "\<exists>p. s = p @ suffix" ..
next
  assume "\<exists>p. s = p @ suffix"
  then show "endswith s suffix"
    by (auto simp: endswith_def)
qed

text \<open>A subscript with a string key succeeds exactly on a dictionary that has the key.\<close>

lemma map_of_Some_iff_key: "(\<exists>x. map_of kvs k = Some x) \<longleftrightarrow> k \<in> fst ` set kvs"
  by (metis map_of_eq_None_iff not_None_eq)

lemma getitem_dict_Inr: "(\<exists>x. getitem (PyDict kvs) k = Inr x) \<longleftrightarrow> k \<in> fst ` set kvs"
  unfolding map_of_Some_iff_key[symmetric] by (cases "map_of kvs k") simp_all

lemma getitem_Inr_iff: "(\<exists>x. getitem v k = Inr x) \<longleftrightarrow> has_key v k"
  by (cases v) (simp_all add: has_key_def getitem_dict_Inr del: getitem.simps(1))

lemma getitem_has_key: "getitem v k = Inr x \<Longrightarrow> has_key v k"
  using getitem_Inr_iff by blast

text \<open>The constructor of the Result Record: numbers pass, and only the metric values can change.\<close>

lemma new_BenchmarkResult_numeric:
  "numeric (metrics raw) \<Longrightarrow> new_BenchmarkResult py raw = Inr raw"
  by (simp add: new_BenchmarkResult_def)

lemma new_BenchmarkResult_no_results [simp]:
  "new_BenchmarkResult py (no_results tid) = Inr (no_results tid)"
  by (rule new_BenchmarkResult_numeric) (simp add: no_results_def numeric_def)

lemma new_BenchmarkResult_parse_error [simp]:
  "new_BenchmarkResult py (parse_error tid e) = Inr (parse_error tid e)"
  by (rule new_BenchmarkResult_numeric) (simp add: parse_error_def numeric_def)

lemma new_BenchmarkResult_Inr:
  assumes "new_BenchmarkResult py raw = Inr r"
  shows "task_id r = task_id raw" and "is_resolved r = is_resolved raw"
    and "log r = log raw" and "other r = other raw"
    and "map fst (metrics r) = map fst (metrics raw)"
proof -
  from assms have "r = raw \<or>
      r = raw\<lparr> metrics :=
            map (\<lambda>(k, v). (k, if is_number v then v else coerce_metric py v)) (metrics raw) \<rparr>"
    by (auto simp: new_BenchmarkResult_def split: if_splits option.splits)
  then show "task_id r = task_id raw" and "is_resolved r = is_resolved raw"
    and "log r = log raw" and "other r = other raw"
    and "map fst (metrics r) = map fst (metrics raw)"
    by (auto simp: case_prod_unfold)
qed

text \<open>When the projection of lines 88 to 106 returns, and what it returns.\<close>

lemma build_result_Inr:
  "build_result py tid lc v = Inr r \<longleftrightarrow>
     (\<exists>m a c i n t g f rs d.
        getitem v ''metrics'' = Inr m \<and> getitem m ''accuracy'' = Inr a \<and>
        getitem m ''correct'' = Inr c \<and> getitem m ''incorrect'' = Inr i \<and>
        getitem m ''not_attempted'' = Inr n \<and> getitem m ''total'' = Inr t \<and>
        getitem m ''correct_given_attempted'' = Inr g \<and> getitem m ''f_score'' = Inr f \<and>
        getitem v ''results'' = Inr rs \<and> getslice rs 10 = Inr d \<and>
        new_BenchmarkResult py
          \<lparr> task_id = tid, is_resolved = True, log = [(''content'', lc)],
            metrics = [(''accuracy'', a), (''correct'', c), (''incorrect'', i),
                       (''not_attempted'', n), (''total'', t),
                       (''correct_given_attempted'', g), (''f_score'', f)],
            other = [(''success'', PyStr (''Evaluated '' @ format_value py t @ '' examples'')),
                     (''detailed_results'', d)] \<rparr> = Inr r)"
  unfolding build_result_def bind_eq_Inr by auto

lemma build_result_resolved: "build_result py tid lc v = Inr r \<Longrightarrow> is_resolved r"
  unfolding build_result_Inr by (auto dest: new_BenchmarkResult_Inr(2))

lemma build_result_log: "build_result py tid lc v = Inr r \<Longrightarrow> log r = [(''content'', lc)]"
  unfolding build_result_Inr by (auto dest: new_BenchmarkResult_Inr(3))

lemma build_result_keys: "build_result py tid lc v = Inr r \<Longrightarrow> map fst (metrics r) = metric_keys"
  unfolding build_result_Inr by (auto dest: new_BenchmarkResult_Inr(5) simp: metric_keys_def)

lemma build_result_has_keys:
  assumes "build_result py tid lc v = Inr r"
  shows "\<exists>m. getitem v ''metrics'' = Inr m \<and> (\<forall>k \<in> set metric_keys. has_key m k)"
    and "has_key v ''metrics''" and "has_key v ''results''"
  using assms unfolding build_result_Inr
  by (auto simp: metric_keys_def dest: getitem_has_key)

lemma try_body_Inr:
  "try_body py fs self tid rf = Inr r \<longleftrightarrow>
     (\<exists>text v lc. read_text fs rf = Inr text \<and> json_loads py text = Inr v \<and>
        read_log fs self = Inr lc \<and> build_result py tid lc v = Inr r)"
  unfolding try_body_def bind_eq_Inr by auto

lemma try_body_resolved: "try_body py fs self tid rf = Inr r \<Longrightarrow> is_resolved r"
  by (auto simp: try_body_Inr dest: build_result_resolved)

lemma no_results_unresolved [simp]: "\<not> is_resolved (no_results tid)"
  by (simp add: no_results_def)

lemma parse_error_unresolved [simp]: "\<not> is_resolved (parse_error tid e)"
  by (simp add: parse_error_def)

text \<open>Once the directory has been listed, the method is a case distinction.\<close>

lemma get_result_listed:
  "listdir fs (results_dir self) = Inr names \<Longrightarrow>
   get_result py fs self tid =
     (case result_files_of names of
        [] \<Rightarrow> Inr (no_results tid)
      | first # _ \<Rightarrow>
          (case try_body py fs self tid (path_join (results_dir self) first) of
             Inr r \<Rightarrow> Inr r
           | Inl e \<Rightarrow> Inr (parse_error tid e)))"
  by (simp add: get_result_def split: list.splits sum.splits)

lemma get_result_Inr_listed:
  "get_result py fs self tid = Inr r \<Longrightarrow> \<exists>names. listdir fs (results_dir self) = Inr names"
  by (auto simp: get_result_def bind_eq_Inr)

lemma get_result_resolved_from_try:
  assumes "get_result py fs self tid = Inr r" and "is_resolved r"
  shows "\<exists>rf. try_body py fs self tid rf = Inr r"
proof -
  from assms(1) obtain names where names: "listdir fs (results_dir self) = Inr names"
    using get_result_Inr_listed by blast
  show ?thesis
  proof (cases "result_files_of names")
    case Nil
    with names assms(1) have "r = no_results tid"
      by (simp add: get_result_listed)
    with assms(2) show ?thesis
      by simp
  next
    case (Cons first rest)
    show ?thesis
    proof (cases "try_body py fs self tid (path_join (results_dir self) first)")
      case (Inl e)
      with Cons names assms(1) have "r = parse_error tid e"
        by (simp add: get_result_listed)
      with assms(2) show ?thesis
        by simp
    next
      case (Inr r')
      with Cons names assms(1) have "r' = r"
        by (simp add: get_result_listed)
      with Inr show ?thesis
        by blast
    qed
  qed
qed

text \<open>The definitions a concrete run unfolds.\<close>

lemmas run_defs =
  get_result_def try_body_def build_result_def read_log_def log_file_of_def
  result_files_of_def endswith_def path_join_def no_results_def parse_error_def
  fs_of_def py_of_def sample_py_def sample_value_def sample_metrics_def sample_results_def
  sample_text_def bench_def errno_message_def quoted_def bind_def
  new_BenchmarkResult_def numeric_def

subsection \<open>\<^verbatim>\<open>get_result\<close>: what is returned and what is raised\<close>

text \<open>
  Claim C1, as amended. \<^verbatim>\<open>os.listdir\<close> runs before the \<^verbatim>\<open>try\<close> statement. Whenever it
  returns a listing, \<^verbatim>\<open>get_result\<close> returns a record, for every task id, library and
  file-system state; and the record is resolved only if a result file was selected and
  the body of the \<^verbatim>\<open>try\<close> ran to its \<^verbatim>\<open>return\<close>, so that the absence of a result file and
  every exception raised while reading, decoding and projecting yield a record with
  \<^verbatim>\<open>is_resolved=False\<close>.
\<close>

theorem get_result_returns_once_listed:
  assumes "listdir fs (results_dir self) = Inr names"
  shows "\<exists>r. get_result py fs self tid = Inr r \<and>
           (is_resolved r \<longleftrightarrow>
              (\<exists>first rest. result_files_of names = first # rest \<and>
                 try_body py fs self tid (path_join (results_dir self) first) = Inr r))"
proof (cases "result_files_of names")
  case Nil
  with assms show ?thesis
    by (simp add: get_result_listed)
next
  case (Cons first rest)
  show ?thesis
  proof (cases "try_body py fs self tid (path_join (results_dir self) first)")
    case (Inl e)
    with Cons assms show ?thesis
      by (simp add: get_result_listed)
  next
    case (Inr r)
    with Cons assms try_body_resolved[OF Inr] show ?thesis
      by (simp add: get_result_listed)
  qed
qed

theorem get_result_returns_once_listed_witness:
  "\<exists>r. get_result sample_py
          (fs_of [ (''/app/results'', Dir [''notes.txt'', ''abc_result.json'']),
                   (''/app/results/abc_result.json'', File ''{}'') ])
          bench ''default'' = Inr r \<and>
        (is_resolved r \<longleftrightarrow>
           (\<exists>first rest.
              result_files_of [''notes.txt'', ''abc_result.json''] = first # rest \<and>
              try_body sample_py
                (fs_of [ (''/app/results'', Dir [''notes.txt'', ''abc_result.json'']),
                         (''/app/results/abc_result.json'', File ''{}'') ])
                bench ''default'' (path_join (results_dir bench) first) = Inr r))"
proof -
  have listed:
    "listdir (fs_of [ (''/app/results'', Dir [''notes.txt'', ''abc_result.json'']),
                      (''/app/results/abc_result.json'', File ''{}'') ])
       (results_dir bench) = Inr [''notes.txt'', ''abc_result.json'']"
    by (simp add: fs_of_def bench_def)
  show ?thesis
    by (rule get_result_returns_once_listed[OF listed])
qed

text \<open>
  The claim as stated fails when the results directory is absent: the
  \<^verbatim>\<open>FileNotFoundError\<close> of \<^verbatim>\<open>os.listdir\<close> leaves \<^verbatim>\<open>get_result\<close>.
\<close>

theorem get_result_raises_counterexample:
  "get_result sample_py (fs_of []) bench ''default'' =
     Inl (OSError (''[Errno 2] No such file or directory: '' @ quoted ''/app/results''))"
  by (simp add: run_defs)

text \<open>
  Claim C5. If the listing of the results directory has no name ending in
  \<^verbatim>\<open>_result.json\<close>, \<^verbatim>\<open>get_result\<close> returns the unresolved record with the empty log
  message, accuracy \<^verbatim>\<open>0.0\<close> and the error \<^verbatim>\<open>No results found\<close>.
\<close>

theorem get_result_no_result_file:
  assumes "listdir fs (results_dir self) = Inr names"
    and "\<forall>f \<in> set names. \<not> (\<exists>p. f = p @ ''_result.json'')"
  shows "get_result py fs self tid =
           Inr \<lparr> task_id = tid, is_resolved = False, log = [(''message'', '''')],
                 metrics = [(''accuracy'', PyFloat 0)],
                 other = [(''error'', PyStr ''No results found'')] \<rparr>"
proof -
  from assms(2) have "result_files_of names = []"
    by (simp add: result_files_of_def endswith_iff filter_empty_conv)
  with assms(1) show ?thesis
    by (simp add: get_result_listed no_results_def)
qed

theorem get_result_no_result_file_witness:
  "get_result sample_py
     (fs_of [ (''/app/results'', Dir [''notes.txt'', ''result.json'', ''abc_result.jsonl'']) ])
     bench ''default'' =
   Inr \<lparr> task_id = ''default'', is_resolved = False, log = [(''message'', '''')],
         metrics = [(''accuracy'', PyFloat 0)],
         other = [(''error'', PyStr ''No results found'')] \<rparr>"
proof -
  have listed:
    "listdir (fs_of [ (''/app/results'',
                       Dir [''notes.txt'', ''result.json'', ''abc_result.jsonl'']) ])
       (results_dir bench) = Inr [''notes.txt'', ''result.json'', ''abc_result.jsonl'']"
    by (simp add: fs_of_def bench_def)
  have none:
    "\<forall>f \<in> set [''notes.txt'', ''result.json'', ''abc_result.jsonl''].
       \<not> (\<exists>p. f = p @ ''_result.json'')"
    by (simp add: endswith_iff[symmetric] endswith_def)
  show ?thesis
    by (rule get_result_no_result_file[OF listed none])
qed


subsection \<open>\<^verbatim>\<open>get_result\<close>: the malformed-output path\<close>

text \<open>
  Claim C3. A result file has been selected and read. If its text does not decode as
  JSON, or the decoded value has no key \<^verbatim>\<open>metrics\<close>, or its metrics lack one of the seven
  fields, or it has no key \<^verbatim>\<open>results\<close>, then the body of the \<^verbatim>\<open>try\<close> raises an exception
  \<open>e\<close>, the handler catches it, and \<^verbatim>\<open>get_result\<close> returns an unresolved record whose
  metrics are accuracy \<^verbatim>\<open>0.0\<close> and whose \<^verbatim>\<open>other\<close> is the single entry \<^verbatim>\<open>error\<close> describing
  the failure: the non-empty string \<^verbatim>\<open>Error parsing results: \<close> followed by \<^verbatim>\<open>str(e)\<close>. When
  the text does not decode, \<open>e\<close> is the exception of the decoder; when it decodes to an
  object without the key \<^verbatim>\<open>metrics\<close> and the log can be read, \<open>e\<close> is \<^verbatim>\<open>KeyError('metrics')\<close>.
\<close>

theorem get_result_malformed:
  assumes "listdir fs (results_dir self) = Inr names"
    and "result_files_of names = first # rest"
    and "read_text fs (path_join (results_dir self) first) = Inr text"
    and "(\<exists>e. json_loads py text = Inl e) \<or>
         (\<exists>v. json_loads py text = Inr v \<and>
            (\<not> has_key v ''metrics'' \<or>
             (\<exists>m. getitem v ''metrics'' = Inr m \<and> (\<exists>k \<in> set metric_keys. \<not> has_key m k)) \<or>
             \<not> has_key v ''results''))"
  shows "\<exists>r e. try_body py fs self tid (path_join (results_dir self) first) = Inl e \<and>
           get_result py fs self tid = Inr r \<and> \<not> is_resolved r \<and>
           metrics r = [(''accuracy'', PyFloat 0)] \<and>
           other r = [(''error'', PyStr (''Error parsing results: '' @ str_exn e))] \<and>
           ''Error parsing results: '' @ str_exn e \<noteq> [] \<and>
           (\<forall>d. json_loads py text = Inl d \<longrightarrow> e = d) \<and>
           (\<forall>kvs lc. json_loads py text = Inr (PyDict kvs) \<and> ''metrics'' \<notin> fst ` set kvs \<and>
                read_log fs self = Inr lc \<longrightarrow> e = KeyError ''metrics'')"
proof -
  let ?rf = "path_join (results_dir self) first"
  have "\<exists>e. try_body py fs self tid ?rf = Inl e"
  proof (rule ccontr)
    assume "\<not> ?thesis"
    then obtain r where "try_body py fs self tid ?rf = Inr r"
      by (cases "try_body py fs self tid ?rf") auto
    then obtain v lc where v: "json_loads py text = Inr v"
      and built: "build_result py tid lc v = Inr r"
      using assms(3) by (auto simp: try_body_Inr)
    from build_result_has_keys[OF built] v assms(4) show False
      by auto
  qed
  then obtain e where e: "try_body py fs self tid ?rf = Inl e" ..
  with assms(1,2) have run: "get_result py fs self tid = Inr (parse_error tid e)"
    by (simp add: get_result_listed)
  have decoder: "\<forall>d. json_loads py text = Inl d \<longrightarrow> e = d"
    using e assms(3) by (auto simp: try_body_def)
  have missing: "\<forall>kvs lc. json_loads py text = Inr (PyDict kvs) \<and> ''metrics'' \<notin> fst ` set kvs \<and>
      read_log fs self = Inr lc \<longrightarrow> e = KeyError ''metrics''"
  proof (intro allI impI)
    fix kvs lc
    assume a: "json_loads py text = Inr (PyDict kvs) \<and> ''metrics'' \<notin> fst ` set kvs \<and>
      read_log fs self = Inr lc"
    then have "map_of kvs ''metrics'' = None"
      by (simp add: map_of_eq_None_iff)
    then have "build_result py tid lc (PyDict kvs) = Inl (KeyError ''metrics'')"
      by (simp add: build_result_def)
    with a e assms(3) show "e = KeyError ''metrics''"
      by (simp add: try_body_def)
  qed
  from e run decoder missing show ?thesis
    by (simp add: parse_error_def)
qed

theorem get_result_malformed_witness:
  "\<exists>r. get_result sample_py
          (fs_of [ (''/app/results'', Dir [''notes.txt'', ''abc_result.json'']),
                   (''/app/results/abc_result.json'', File ''{}'') ])
          bench ''default'' = Inr r \<and>
        \<not> is_resolved r \<and> metrics r = [(''accuracy'', PyFloat 0)] \<and>
        other r = [(''error'', PyStr (''Error parsing results: '' @ quoted ''metrics''))]"
proof -
  let ?fs = "fs_of [ (''/app/results'', Dir [''notes.txt'', ''abc_result.json'']),
                     (''/app/results/abc_result.json'', File ''{}'') ]"
  have listed: "listdir ?fs (results_dir bench) = Inr [''notes.txt'', ''abc_result.json'']"
    by (simp add: fs_of_def bench_def)
  have selected: "result_files_of [''notes.txt'', ''abc_result.json''] = ''abc_result.json'' # []"
    by (simp add: result_files_of_def endswith_def)
  have read: "read_text ?fs (path_join (results_dir bench) ''abc_result.json'') = Inr ''{}''"
    by (simp add: fs_of_def bench_def path_join_def endswith_def)
  have decoded: "json_loads sample_py ''{}'' = Inr (PyDict [])"
    by (simp add: sample_py_def py_of_def sample_text_def)
  have lacking:
    "(\<exists>e. json_loads sample_py ''{}'' = Inl e) \<or>
     (\<exists>v. json_loads sample_py ''{}'' = Inr v \<and>
        (\<not> has_key v ''metrics'' \<or>
         (\<exists>m. getitem v ''metrics'' = Inr m \<and> (\<exists>k \<in> set metric_keys. \<not> has_key m k)) \<or>
         \<not> has_key v ''results''))"
    by (simp add: decoded has_key_def)
  have no_log: "read_log ?fs bench = Inr []"
    by (simp add: read_log_def log_file_of_def fs_of_def bench_def path_join_def endswith_def)
  from get_result_malformed[OF listed selected read lacking, of "''default''"]
  obtain r e where run: "get_result sample_py ?fs bench ''default'' = Inr r"
    and flagged: "\<not> is_resolved r" "metrics r = [(''accuracy'', PyFloat 0)]"
    and message: "other r = [(''error'', PyStr (''Error parsing results: '' @ str_exn e))]"
    and key: "\<forall>kvs lc. json_loads sample_py ''{}'' = Inr (PyDict kvs) \<and>
        ''metrics'' \<notin> fst ` set kvs \<and> read_log ?fs bench = Inr lc \<longrightarrow> e = KeyError ''metrics''"
    by blast
  from key decoded no_log have "e = KeyError ''metrics''"
    by simp
  with run flagged message show ?thesis
    by simp
qed

text \<open>
  Claim C4, as amended. In the handler the message of the caught exception is kept
  verbatim, after the fixed prefix \<^verbatim>\<open>Error parsing results: \<close>: for every exception \<open>e\<close>
  that the body of the \<^verbatim>\<open>try\<close> raises, \<^verbatim>\<open>other\<close> is the single entry \<^verbatim>\<open>error\<close> holding the
  prefix followed by \<^verbatim>\<open>str(e)\<close>.
\<close>

theorem parse_error_message_prefixed:
  assumes "listdir fs (results_dir self) = Inr names"
    and "result_files_of names = first # rest"
    and "try_body py fs self tid (path_join (results_dir self) first) = Inl e"
  shows "\<exists>r. get_result py fs self tid = Inr r \<and>
           other r = [(''error'', PyStr (''Error parsing results: '' @ str_exn e))]"
  using assms by (simp add: get_result_listed parse_error_def)

theorem parse_error_message_prefixed_witness:
  "\<exists>r. get_result sample_py
          (fs_of [ (''/app/results'', Dir [''abc_result.json'']),
                   (''/app/results/abc_result.json'', File ''not json'') ])
          bench ''default'' = Inr r \<and>
        other r =
          [(''error'', PyStr (''Error parsing results: '' @
              str_exn (ValueError ''Expecting value: line 1 column 1 (char 0)'')))]"
proof -
  have listed:
    "listdir (fs_of [ (''/app/results'', Dir [''abc_result.json'']),
                      (''/app/results/abc_result.json'', File ''not json'') ])
       (results_dir bench) = Inr [''abc_result.json'']"
    by (simp add: fs_of_def bench_def)
  have selected: "result_files_of [''abc_result.json''] = ''abc_result.json'' # []"
    by (simp add: result_files_of_def endswith_def)
  have raised:
    "try_body sample_py
       (fs_of [ (''/app/results'', Dir [''abc_result.json'']),
                (''/app/results/abc_result.json'', File ''not json'') ])
       bench ''default'' (path_join (results_dir bench) ''abc_result.json'') =
     Inl (ValueError ''Expecting value: line 1 column 1 (char 0)'')"
    by (simp add: run_defs)
  show ?thesis
    by (rule parse_error_message_prefixed[OF listed selected raised])
qed

text \<open>
  The claim as stated fails: for the result file \<^verbatim>\<open>{}\<close> the handler catches
  \<^verbatim>\<open>KeyError('metrics')\<close>, whose \<^verbatim>\<open>str\<close> is \<^verbatim>\<open>'metrics'\<close>, and the error string returned is
  not that message but the prefixed one.
\<close>

theorem parse_error_message_counterexample:
  "try_body sample_py
     (fs_of [ (''/app/results'', Dir [''abc_result.json'']),
              (''/app/results/abc_result.json'', File ''{}'') ])
     bench ''default'' ''/app/results/abc_result.json'' = Inl (KeyError ''metrics'')
   \<and> get_result sample_py
     (fs_of [ (''/app/results'', Dir [''abc_result.json'']),
              (''/app/results/abc_result.json'', File ''{}'') ])
     bench ''default'' =
       Inr \<lparr> task_id = ''default'', is_resolved = False, log = [(''message'', '''')],
             metrics = [(''accuracy'', PyFloat 0)],
             other = [(''error'', PyStr (''Error parsing results: '' @ quoted ''metrics''))] \<rparr>
   \<and> ''Error parsing results: '' @ quoted ''metrics'' \<noteq> str_exn (KeyError ''metrics'')"
  by (simp add: run_defs)


subsection \<open>\<^verbatim>\<open>get_result\<close>: the success path\<close>

text \<open>
  Claim C2, as amended. A result file has been selected, its text decodes to a JSON
  object whose \<^verbatim>\<open>metrics\<close> is an object with all seven fields, each of them a number, and
  whose \<^verbatim>\<open>results\<close> is an array, and the log file is either absent or can be read. Then
  \<^verbatim>\<open>get_result\<close> returns a resolved record for the task id, its metrics are the seven
  fields with the values of the file, and \<^verbatim>\<open>detailed_results\<close> is the first ten elements
  of \<^verbatim>\<open>results\<close> in their order: all of them when there are at most ten, exactly ten
  otherwise.
\<close>

theorem get_result_success:
  assumes "listdir fs (results_dir self) = Inr names"
    and "result_files_of names = first # rest"
    and "read_text fs (path_join (results_dir self) first) = Inr text"
    and "json_loads py text = Inr (PyDict doc)"
    and "map_of doc ''metrics'' = Some (PyDict ms)"
    and "\<forall>k \<in> set metric_keys. \<exists>x. map_of ms k = Some x \<and> is_number x"
    and "map_of doc ''results'' = Some (PyList xs)"
    and "\<not> path_exists fs (path_join (log_files_dir self) ''simpleqa.log'') \<or>
         (\<exists>lc. read_text fs (path_join (log_files_dir self) ''simpleqa.log'') = Inr lc)"
  shows "\<exists>r. get_result py fs self tid = Inr r \<and> is_resolved r \<and> task_id r = tid \<and>
           map fst (metrics r) = metric_keys \<and>
           (\<forall>k \<in> set metric_keys. map_of (metrics r) k = map_of ms k) \<and>
           map_of (other r) ''detailed_results'' = Some (PyList (take 10 xs)) \<and>
           length (take 10 xs) = min 10 (length xs) \<and>
           (length xs \<le> 10 \<longrightarrow> take 10 xs = xs)"
proof -
  from assms(6) obtain a c i n t g f where vals:
    "map_of ms ''accuracy'' = Some a" "map_of ms ''correct'' = Some c"
    "map_of ms ''incorrect'' = Some i" "map_of ms ''not_attempted'' = Some n"
    "map_of ms ''total'' = Some t" "map_of ms ''correct_given_attempted'' = Some g"
    "map_of ms ''f_score'' = Some f"
    and numbers: "is_number a" "is_number c" "is_number i" "is_number n" "is_number t"
      "is_number g" "is_number f"
    unfolding metric_keys_def by auto
  from assms(8) have "\<exists>lc. read_log fs self = Inr lc"
    by (cases "path_exists fs (path_join (log_files_dir self) ''simpleqa.log'')")
       (auto simp: read_log_def log_file_of_def)
  then obtain lc where lc: "read_log fs self = Inr lc" ..
  define r where "r =
    \<lparr> task_id = tid, is_resolved = True, log = [(''content'', lc)],
      metrics = [(''accuracy'', a), (''correct'', c), (''incorrect'', i),
                 (''not_attempted'', n), (''total'', t),
                 (''correct_given_attempted'', g), (''f_score'', f)],
      other = [(''success'', PyStr (''Evaluated '' @ format_value py t @ '' examples'')),
               (''detailed_results'', PyList (take 10 xs))] \<rparr>"
  have "new_BenchmarkResult py r = Inr r"
    by (rule new_BenchmarkResult_numeric) (simp add: r_def numeric_def numbers)
  then have "build_result py tid lc (PyDict doc) = Inr r"
    by (simp add: build_result_def assms(5,7) vals r_def)
  with assms(3,4) lc
  have "try_body py fs self tid (path_join (results_dir self) first) = Inr r"
    by (simp add: try_body_def)
  with assms(1,2) have "get_result py fs self tid = Inr r"
    by (simp add: get_result_listed)
  moreover have "\<forall>k \<in> set metric_keys. map_of (metrics r) k = map_of ms k"
    by (simp add: r_def metric_keys_def vals)
  moreover have "map fst (metrics r) = metric_keys"
    by (simp add: r_def metric_keys_def)
  moreover have "map_of (other r) ''detailed_results'' = Some (PyList (take 10 xs))"
    by (simp add: r_def)
  moreover have "is_resolved r" "task_id r = tid"
    by (simp_all add: r_def)
  ultimately show ?thesis
    by auto
qed

theorem get_result_success_witness:
  "\<exists>r. get_result sample_py
          (fs_of [ (''/app/results'', Dir [''notes.txt'', ''abc_result.json'']),
                   (''/app/results/abc_result.json'', File sample_text),
                   (''/app/logs/simpleqa.log'', File ''hello'') ])
          bench ''default'' = Inr r \<and>
        is_resolved r \<and> task_id r = ''default'' \<and>
        map fst (metrics r) = metric_keys \<and>
        (\<forall>k \<in> set metric_keys. map_of (metrics r) k = map_of sample_metrics k) \<and>
        map_of (other r) ''detailed_results'' = Some (PyList (take 10 sample_results)) \<and>
        length (take 10 sample_results) = min 10 (length sample_results) \<and>
        (length sample_results \<le> 10 \<longrightarrow> take 10 sample_results = sample_results)"
proof -
  have listed:
    "listdir (fs_of [ (''/app/results'', Dir [''notes.txt'', ''abc_result.json'']),
                      (''/app/results/abc_result.json'', File sample_text),
                      (''/app/logs/simpleqa.log'', File ''hello'') ])
       (results_dir bench) = Inr [''notes.txt'', ''abc_result.json'']"
    by (simp add: fs_of_def bench_def)
  have selected: "result_files_of [''notes.txt'', ''abc_result.json''] = ''abc_result.json'' # []"
    by (simp add: result_files_of_def endswith_def)
  have read:
    "read_text (fs_of [ (''/app/results'', Dir [''notes.txt'', ''abc_result.json'']),
                        (''/app/results/abc_result.json'', File sample_text),
                        (''/app/logs/simpleqa.log'', File ''hello'') ])
       (path_join (results_dir bench) ''abc_result.json'') = Inr sample_text"
    by (simp add: fs_of_def bench_def path_join_def endswith_def)
  have decoded:
    "json_loads sample_py sample_text =
       Inr (PyDict [(''metrics'', PyDict sample_metrics), (''results'', PyList sample_results)])"
    by (simp add: sample_py_def py_of_def sample_value_def)
  have m: "map_of [(''metrics'', PyDict sample_metrics), (''results'', PyList sample_results)]
             ''metrics'' = Some (PyDict sample_metrics)"
    by simp
  have keys: "\<forall>k \<in> set metric_keys. \<exists>x. map_of sample_metrics k = Some x \<and> is_number x"
    by (simp add: metric_keys_def sample_metrics_def)
  have rs: "map_of [(''metrics'', PyDict sample_metrics), (''results'', PyList sample_results)]
              ''results'' = Some (PyList sample_results)"
    by simp
  have logged:
    "\<not> path_exists (fs_of [ (''/app/results'', Dir [''notes.txt'', ''abc_result.json'']),
                             (''/app/results/abc_result.json'', File sample_text),
                             (''/app/logs/simpleqa.log'', File ''hello'') ])
          (path_join (log_files_dir bench) ''simpleqa.log'')
     \<or> (\<exists>lc. read_text (fs_of [ (''/app/results'', Dir [''notes.txt'', ''abc_result.json'']),
                                 (''/app/results/abc_result.json'', File sample_text),
                                 (''/app/logs/simpleqa.log'', File ''hello'') ])
                 (path_join (log_files_dir bench) ''simpleqa.log'') = Inr lc)"
    by (simp add: fs_of_def bench_def path_join_def endswith_def)
  show ?thesis
    by (rule get_result_success[OF listed selected read decoded m keys rs logged])
qed

text \<open>
  The claim as stated fails when the log path exists and cannot be read: here
  \<^verbatim>\<open>simpleqa.log\<close> is a directory, \<^verbatim>\<open>os.path.exists\<close> is true, \<^verbatim>\<open>open\<close> raises inside the
  \<^verbatim>\<open>try\<close> statement, and the well-formed result file yields an unresolved record.
\<close>

theorem get_result_success_counterexample:
  "get_result sample_py
     (fs_of [ (''/app/results'', Dir [''abc_result.json'']),
              (''/app/results/abc_result.json'', File sample_text),
              (''/app/logs/simpleqa.log'', Dir []) ])
     bench ''default'' =
   Inr \<lparr> task_id = ''default'', is_resolved = False, log = [(''message'', '''')],
         metrics = [(''accuracy'', PyFloat 0)],
         other = [(''error'', PyStr (''Error parsing results: [Errno 21] Is a directory: '' @
                     quoted ''/app/logs/simpleqa.log''))] \<rparr>
   \<and> json_loads sample_py sample_text = Inr sample_value"
  by (simp add: run_defs)

text \<open>
  Claim C10. A resolved record has exactly the seven metric keys, whatever else the
  metrics object of the result file holds.
\<close>

theorem resolved_metrics_keys:
  assumes "get_result py fs self tid = Inr r" and "is_resolved r"
  shows "map fst (metrics r) = metric_keys \<and>
         fst ` set (metrics r) =
           {''accuracy'', ''correct'', ''incorrect'', ''not_attempted'', ''total'',
            ''correct_given_attempted'', ''f_score''}"
proof -
  from assms obtain rf where "try_body py fs self tid rf = Inr r"
    using get_result_resolved_from_try by blast
  then obtain lc v where "build_result py tid lc v = Inr r"
    by (auto simp: try_body_Inr)
  then have "map fst (metrics r) = metric_keys"
    by (rule build_result_keys)
  moreover from this have "fst ` set (metrics r) = set metric_keys"
    by (metis set_map)
  ultimately show ?thesis
    by (simp add: metric_keys_def)
qed

theorem resolved_metrics_keys_witness:
  "\<exists>r. get_result sample_py
          (fs_of [ (''/app/results'', Dir [''abc_result.json'']),
                   (''/app/results/abc_result.json'', File sample_text) ])
          bench ''default'' = Inr r \<and>
        is_resolved r \<and> map fst (metrics r) = metric_keys \<and>
        ''model'' \<in> fst ` set sample_metrics \<and> ''model'' \<notin> fst ` set (metrics r)"
proof -
  obtain r where run:
    "get_result sample_py
       (fs_of [ (''/app/results'', Dir [''abc_result.json'']),
                (''/app/results/abc_result.json'', File sample_text) ])
       bench ''default'' = Inr r"
    and resolved: "is_resolved r"
    by (simp add: run_defs)
  from resolved_metrics_keys[OF run resolved] run resolved show ?thesis
    by (simp add: sample_metrics_def)
qed

subsection \<open>\<^verbatim>\<open>get_result\<close>: the log file\<close>

text \<open>
  Claim C6. The log file is the entry \<^verbatim>\<open>simpleqa.log\<close> of the logs directory
  \<^verbatim>\<open>self.log_files_dir\<close>: the directory, a separator unless the directory already ends
  with one, and the name. In a resolved record the log is the single entry \<^verbatim>\<open>content\<close>:
  the full text of that file when \<^verbatim>\<open>os.path.exists\<close> finds it, the empty string when it
  does not. And a missing log file causes no failure: when it is missing and the
  selected result file is read, decoded and projected without an exception, the record
  returned is the resolved one with the empty content.
\<close>

theorem log_content_best_effort:
  "(get_result py fs self tid = Inr r \<longrightarrow> is_resolved r \<longrightarrow>
      (if path_exists fs (path_join (log_files_dir self) ''simpleqa.log'')
       then \<exists>text. read_text fs (path_join (log_files_dir self) ''simpleqa.log'') = Inr text \<and>
              log r = [(''content'', text)]
       else log r = [(''content'', '''')]))
   \<and> (\<not> path_exists fs (path_join (log_files_dir self) ''simpleqa.log'') \<longrightarrow>
        listdir fs (results_dir self) = Inr names \<longrightarrow>
        result_files_of names = first # rest \<longrightarrow>
        read_text fs (path_join (results_dir self) first) = Inr doc_text \<longrightarrow>
        json_loads py doc_text = Inr v \<longrightarrow>
        build_result py tid '''' v = Inr r' \<longrightarrow>
        get_result py fs self tid = Inr r' \<and> is_resolved r' \<and> log r' = [(''content'', '''')])
   \<and> (log_files_dir self \<noteq> [] \<longrightarrow> last (log_files_dir self) \<noteq> CHR ''/'' \<longrightarrow>
        path_join (log_files_dir self) ''simpleqa.log'' = log_files_dir self @ ''/simpleqa.log'')
   \<and> (log_files_dir self \<noteq> [] \<longrightarrow> last (log_files_dir self) = CHR ''/'' \<longrightarrow>
        path_join (log_files_dir self) ''simpleqa.log'' = log_files_dir self @ ''simpleqa.log'')"
proof (intro conjI impI)
  assume run: "get_result py fs self tid = Inr r" and resolved: "is_resolved r"
  then obtain rf where "try_body py fs self tid rf = Inr r"
    using get_result_resolved_from_try by blast
  then obtain lc v where lc: "read_log fs self = Inr lc"
    and built: "build_result py tid lc v = Inr r"
    by (auto simp: try_body_Inr)
  from built have "log r = [(''content'', lc)]"
    by (rule build_result_log)
  with lc show "if path_exists fs (path_join (log_files_dir self) ''simpleqa.log'')
      then \<exists>text. read_text fs (path_join (log_files_dir self) ''simpleqa.log'') = Inr text \<and>
             log r = [(''content'', text)]
      else log r = [(''content'', '''')]"
    by (auto simp: read_log_def log_file_of_def split: if_splits)
next
  assume missing: "\<not> path_exists fs (path_join (log_files_dir self) ''simpleqa.log'')"
    and listed: "listdir fs (results_dir self) = Inr names"
    and selected: "result_files_of names = first # rest"
    and read: "read_text fs (path_join (results_dir self) first) = Inr doc_text"
    and decoded: "json_loads py doc_text = Inr v"
    and built: "build_result py tid '''' v = Inr r'"
  from missing have "read_log fs self = Inr ''''"
    by (simp add: read_log_def log_file_of_def)
  with read decoded built
  have "try_body py fs self tid (path_join (results_dir self) first) = Inr r'"
    by (simp add: try_body_def)
  with listed selected have run: "get_result py fs self tid = Inr r'"
    by (simp add: get_result_listed)
  from built have "is_resolved r'" and "log r' = [(''content'', '''')]"
    by (rule build_result_resolved, rule build_result_log)
  with run show "get_result py fs self tid = Inr r'" and "is_resolved r'"
    and "log r' = [(''content'', '''')]"
    by simp_all
next
  assume "log_files_dir self \<noteq> []" and "last (log_files_dir self) \<noteq> CHR ''/''"
  then show "path_join (log_files_dir self) ''simpleqa.log'' = log_files_dir self @ ''/simpleqa.log''"
    by (auto simp: path_join_def endswith_iff)
next
  assume "log_files_dir self \<noteq> []" and "last (log_files_dir self) = CHR ''/''"
  then have "log_files_dir self = butlast (log_files_dir self) @ ''/''"
    by (metis append_butlast_last_id)
  then have "endswith (log_files_dir self) ''/''"
    unfolding endswith_iff by blast
  then show "path_join (log_files_dir self) ''simpleqa.log'' = log_files_dir self @ ''simpleqa.log''"
    by (simp add: path_join_def)
qed

theorem log_content_best_effort_witness:
  "(\<exists>r. get_result sample_py
           (fs_of [ (''/host/results'', Dir [''abc_result.json'']),
                    (''/host/results/abc_result.json'', File sample_text),
                    (''/host/logs/simpleqa.log'', File ''hello''),
                    (''/app/logs/simpleqa.log'', File ''elsewhere'') ])
           \<lparr> results_dir = ''/host/results'', log_files_dir = ''/host/logs'' \<rparr> ''default'' = Inr r \<and>
         is_resolved r \<and> log r = [(''content'', ''hello'')])
   \<and> (\<exists>r. get_result sample_py
           (fs_of [ (''/host/results'', Dir [''abc_result.json'']),
                    (''/host/results/abc_result.json'', File sample_text),
                    (''/app/logs/simpleqa.log'', File ''elsewhere'') ])
           \<lparr> results_dir = ''/host/results'', log_files_dir = ''/host/logs'' \<rparr> ''default'' = Inr r \<and>
         is_resolved r \<and> log r = [(''content'', '''')])"
proof (rule conjI)
  let ?fs = "fs_of [ (''/host/results'', Dir [''abc_result.json'']),
                     (''/host/results/abc_result.json'', File sample_text),
                     (''/host/logs/simpleqa.log'', File ''hello''),
                     (''/app/logs/simpleqa.log'', File ''elsewhere'') ]"
  let ?self = "\<lparr> results_dir = ''/host/results'', log_files_dir = ''/host/logs'' \<rparr>"
  obtain r where run: "get_result sample_py ?fs ?self ''default'' = Inr r"
    and resolved: "is_resolved r"
    by (simp add: run_defs)
  have dir: "log_files_dir ?self \<noteq> []" "last (log_files_dir ?self) \<noteq> CHR ''/''"
    by simp_all
  have present: "path_exists ?fs (log_files_dir ?self @ ''/simpleqa.log'')"
    and content: "read_text ?fs (log_files_dir ?self @ ''/simpleqa.log'') = Inr ''hello''"
    by (simp_all add: fs_of_def)
  from log_content_best_effort[of sample_py ?fs ?self "''default''" r] run resolved dir
  have "if path_exists ?fs (log_files_dir ?self @ ''/simpleqa.log'')
        then \<exists>text. read_text ?fs (log_files_dir ?self @ ''/simpleqa.log'') = Inr text \<and>
               log r = [(''content'', text)]
        else log r = [(''content'', '''')]"
    by metis
  with present content have "log r = [(''content'', ''hello'')]"
    by simp
  with run resolved
  show "\<exists>r. get_result sample_py ?fs ?self ''default'' = Inr r \<and>
          is_resolved r \<and> log r = [(''content'', ''hello'')]"
    by blast
next
  let ?fs = "fs_of [ (''/host/results'', Dir [''abc_result.json'']),
                     (''/host/results/abc_result.json'', File sample_text),
                     (''/app/logs/simpleqa.log'', File ''elsewhere'') ]"
  let ?self = "\<lparr> results_dir = ''/host/results'', log_files_dir = ''/host/logs'' \<rparr>"
  have dir: "log_files_dir ?self \<noteq> []" "last (log_files_dir ?self) \<noteq> CHR ''/''"
    by simp_all
  have absent: "\<not> path_exists ?fs (log_files_dir ?self @ ''/simpleqa.log'')"
    by (simp add: fs_of_def)
  have listed: "listdir ?fs (results_dir ?self) = Inr [''abc_result.json'']"
    by (simp add: fs_of_def)
  have selected: "result_files_of [''abc_result.json''] = ''abc_result.json'' # []"
    by (simp add: result_files_of_def endswith_def)
  have read: "read_text ?fs (path_join (results_dir ?self) ''abc_result.json'') = Inr sample_text"
    by (simp add: fs_of_def path_join_def endswith_def)
  have decoded: "json_loads sample_py sample_text = Inr sample_value"
    by (simp add: sample_py_def py_of_def)
  obtain r' where built: "build_result sample_py ''default'' '''' sample_value = Inr r'"
    by (simp add: build_result_def sample_value_def sample_metrics_def sample_results_def
        new_BenchmarkResult_def numeric_def)
  note fact = log_content_best_effort[of sample_py ?fs ?self "''default''" _
      "[''abc_result.json'']" "''abc_result.json''" "[]" sample_text sample_value r']
  from fact dir have path: "path_join (log_files_dir ?self) ''simpleqa.log'' =
      log_files_dir ?self @ ''/simpleqa.log''"
    by blast
  from fact absent[folded path] listed selected read decoded built
  show "\<exists>r. get_result sample_py ?fs ?self ''default'' = Inr r \<and>
          is_resolved r \<and> log r = [(''content'', '''')]"
    by blast
qed


subsection \<open>\<^verbatim>\<open>get_result\<close>: dependence on the file system\<close>

text \<open>
  Claim C7. \<^verbatim>\<open>get_result\<close> writes nothing, and its outcome is a function of what it reads:
  the listing of the results directory, the text of the selected result file, and the
  existence and text of the log file. Two calls with the same task id at file-system
  states that agree on these have the same outcome, the same record field by field (or
  the same exception of \<^verbatim>\<open>os.listdir\<close>); in particular two calls at an unchanged state do.
\<close>

theorem get_result_idempotent:
  assumes "listdir fs2 (results_dir self) = listdir fs1 (results_dir self)"
    and "\<And>names first rest.
           listdir fs1 (results_dir self) = Inr names \<Longrightarrow> result_files_of names = first # rest \<Longrightarrow>
           read_text fs2 (path_join (results_dir self) first) =
             read_text fs1 (path_join (results_dir self) first)"
    and "path_exists fs2 (log_file_of self) = path_exists fs1 (log_file_of self)"
    and "read_text fs2 (log_file_of self) = read_text fs1 (log_file_of self)"
  shows "get_result py fs2 self tid = get_result py fs1 self tid"
proof (cases "listdir fs1 (results_dir self)")
  case (Inl e)
  with assms(1) show ?thesis
    by (simp add: get_result_def)
next
  case (Inr names)
  have log: "read_log fs2 self = read_log fs1 self"
    by (simp add: read_log_def assms(3,4))
  show ?thesis
  proof (cases "result_files_of names")
    case Nil
    with Inr assms(1) show ?thesis
      by (simp add: get_result_listed)
  next
    case (Cons first rest)
    from assms(2)[OF Inr Cons] log
    have "try_body py fs2 self tid (path_join (results_dir self) first) =
          try_body py fs1 self tid (path_join (results_dir self) first)"
      by (simp add: try_body_def)
    with Inr Cons assms(1) show ?thesis
      by (simp add: get_result_listed)
  qed
qed

theorem get_result_idempotent_witness:
  "get_result sample_py
     (fs_of [ (''/app/results'', Dir [''abc_result.json'']),
              (''/app/results/abc_result.json'', File sample_text),
              (''/app/logs/simpleqa.log'', File ''hello''),
              (''/app/logs/other.log'', File ''later'') ])
     bench ''default'' =
   get_result sample_py
     (fs_of [ (''/app/results'', Dir [''abc_result.json'']),
              (''/app/results/abc_result.json'', File sample_text),
              (''/app/logs/simpleqa.log'', File ''hello'') ])
     bench ''default''"
proof (rule get_result_idempotent)
  show "listdir (fs_of [ (''/app/results'', Dir [''abc_result.json'']),
              (''/app/results/abc_result.json'', File sample_text),
              (''/app/logs/simpleqa.log'', File ''hello''),
              (''/app/logs/other.log'', File ''later'') ]) (results_dir bench) =
        listdir (fs_of [ (''/app/results'', Dir [''abc_result.json'']),
              (''/app/results/abc_result.json'', File sample_text),
              (''/app/logs/simpleqa.log'', File ''hello'') ]) (results_dir bench)"
    by (simp add: fs_of_def bench_def)
next
  fix names first rest
  assume "listdir (fs_of [ (''/app/results'', Dir [''abc_result.json'']),
              (''/app/results/abc_result.json'', File sample_text),
              (''/app/logs/simpleqa.log'', File ''hello'') ]) (results_dir bench) = Inr names"
    and "result_files_of names = first # rest"
  then have "first = ''abc_result.json''"
    by (auto simp: fs_of_def bench_def result_files_of_def endswith_def)
  then show "read_text (fs_of [ (''/app/results'', Dir [''abc_result.json'']),
              (''/app/results/abc_result.json'', File sample_text),
              (''/app/logs/simpleqa.log'', File ''hello''),
              (''/app/logs/other.log'', File ''later'') ]) (path_join (results_dir bench) first) =
        read_text (fs_of [ (''/app/results'', Dir [''abc_result.json'']),
              (''/app/results/abc_result.json'', File sample_text),
              (''/app/logs/simpleqa.log'', File ''hello'') ]) (path_join (results_dir bench) first)"
    by (simp add: fs_of_def bench_def path_join_def endswith_def)
next
  show "path_exists (fs_of [ (''/app/results'', Dir [''abc_result.json'']),
              (''/app/results/abc_result.json'', File sample_text),
              (''/app/logs/simpleqa.log'', File ''hello''),
              (''/app/logs/other.log'', File ''later'') ]) (log_file_of bench) =
        path_exists (fs_of [ (''/app/results'', Dir [''abc_result.json'']),
              (''/app/results/abc_result.json'', File sample_text),
              (''/app/logs/simpleqa.log'', File ''hello'') ]) (log_file_of bench)"
    by (simp add: fs_of_def bench_def log_file_of_def path_join_def endswith_def)
next
  show "read_text (fs_of [ (''/app/results'', Dir [''abc_result.json'']),
              (''/app/results/abc_result.json'', File sample_text),
              (''/app/logs/simpleqa.log'', File ''hello''),
              (''/app/logs/other.log'', File ''later'') ]) (log_file_of bench) =
        read_text (fs_of [ (''/app/results'', Dir [''abc_result.json'']),
              (''/app/results/abc_result.json'', File sample_text),
              (''/app/logs/simpleqa.log'', File ''hello'') ]) (log_file_of bench)"
    by (simp add: fs_of_def bench_def log_file_of_def path_join_def endswith_def)
qed

end
